theory Spec2Isabelle
  imports Main "HOL-Library.AList" "HOL-Library.Word"
begin

section \<open>termcast: the podcast downloader \<open>download_podcast_episodes.py\<close>\<close>

text \<open>
  A shallow embedding of the script. A Python string is the \<^typ>\<open>string\<close> of
  its UTF-8 bytes: an ASCII character is one \<^typ>\<open>char\<close>, and no byte of a longer
  sequence is ASCII, so the script's comparisons with its ASCII literals and its
  removal of ASCII characters come out the same. A Python
  dictionary that is iterated is an association list with distinct keys in insertion
  order (\<^const>\<open>AList.update\<close> is \<open>d[k] = v\<close>: it overwrites in place or appends); a
  dictionary that is only subscripted is a map, and a missing key is \<open>KeyError\<close>.
  The results of \<open>feedparser\<close> are dictionaries read as attributes
  (\<open>feed_dict.entries\<close>, \<open>episode.links\<close>, \<open>episode.title\<close>): such a field is an
  option, and reading it while absent is \<open>AttributeError\<close>.
  A function that prints, touches the filesystem or can raise takes the world and
  returns the exception or the value (\<open>Inl\<close> the exception) with the new world.
\<close>

subsection \<open>Text Sanitizer: \<open>format_text\<close> and \<open>format_title\<close>\<close>

text \<open>The list \<open>unaccepted\<close> of \<open>format_text\<close>, in source order.\<close>

definition unaccepted :: "char list" where
  "unaccepted =
    [CHR '':'', CHR ''-'', CHR ''?'', CHR ''+'', CHR ''@'', CHR '','', CHR ''|'',
     CHR ''['', CHR '']'', CHR 0x22, CHR ''>'', CHR ''<'', CHR ''/'', CHR 0x5C,
     CHR ''*'', CHR ''#'', CHR ''%'', CHR ''^'']"

text \<open>\<open>text.replace(element, '')\<close> for a one-character \<open>element\<close>.\<close>

definition replace_empty :: "char \<Rightarrow> string \<Rightarrow> string" where
  "replace_empty element text = filter (\<lambda>c. c \<noteq> element) text"

text \<open>
  The inner loop \<open>for element in unaccepted: if char == element: text = text.replace(...)\<close>
  for one \<open>char\<close>, threading the variable \<open>text\<close>.
\<close>

definition format_text_inner :: "char \<Rightarrow> string \<Rightarrow> string" where
  "format_text_inner char text =
     fold (\<lambda>element text. if char = element then replace_empty element text else text)
       unaccepted text"

text \<open>
  The outer loop iterates over the string object bound to \<open>text\<close> on entry (rebinding
  \<open>text\<close> in the body does not change the iteration), so the characters come from
  the original argument while the replacements accumulate.
\<close>

definition format_text :: "string \<Rightarrow> string" where
  "format_text text = fold format_text_inner text text"

text \<open>
  \<open>format_title\<close>. The third title holds an en dash (U+2013), here its three
  UTF-8 bytes.
\<close>

definition format_title :: "string \<Rightarrow> string" where
  "format_title title =
     (if title = ''At Liberty Podcast  American Civil Liberties Union''
        then ''At Liberty Podcast American Civil Liberties Union''
      else if title = ''Darknet Diaries Bonus Episodes'' then ''Darknet Diaries''
      else if title = ''Fireside Podcast '' @ [CHR 0xE2, CHR 0x80, CHR 0x93] @ '' HeadStuff''
        then ''Fireside Podcast''
      else title)"

subsection \<open>Exceptions, console and the world\<close>

text \<open>
  The exceptions the script can meet. \<open>OtherError\<close> stands for an exception of a
  library (a transport error of \<open>requests.get\<close>, a parse error of \<open>opml.parse\<close>).
\<close>

datatype exn =
    KeyError | AttributeError | ValueError | TypeError | UnboundLocalError
  | FileNotFoundError | NotADirectoryError | FileExistsError | IsADirectoryError
  | OtherError string

type_synonym path = "string list"

text \<open>
  One constructor for each \<open>console.print\<close> of the script, with the values it formats.
  Printing always succeeds here: the markup errors that \<open>rich\<close> raises on some
  interpolated values are not modelled.
\<close>

datatype message =
    NewEpisode string
  | AlreadyDownloaded string
  | DirectoryNameInvalid path exn
  | ParentNotFound path
  | OpmlException exn
  | NotAValidDirectory
  | MalformedFeed string
  | FeedKeyError string

type_synonym bytes = "8 word list"

datatype node = Dir | File bytes

text \<open>
  The filesystem is an association list from paths (lists of components, \<open>[]\<close> the
  root) to nodes. The world is what the script reads and changes: the filesystem, the
  console, and the \<open>threading.Event\<close> called \<open>done_event\<close>.
\<close>

type_synonym filesystem = "(path \<times> node) list"

record world =
  fs :: filesystem
  console :: "message list"
  done_event :: bool

definition console_print :: "message \<Rightarrow> world \<Rightarrow> world" where
  "console_print m w = w\<lparr>console := console w @ [m]\<rparr>"

text \<open>\<open>handle_sigint\<close>, installed for SIGINT: it sets the event and does nothing else.\<close>

definition handle_sigint :: "world \<Rightarrow> world" where
  "handle_sigint w = w\<lparr>done_event := True\<rparr>"

subsection \<open>The operating system as \<open>pathlib\<close> and \<open>open\<close> show it\<close>

text \<open>
  POSIX behaviour of the calls the script makes. \<open>stat\<close> is the lookup; the root always
  is a directory. Limits of the system (the length of a name, permissions, space) are
  not modelled.
\<close>

definition stat :: "filesystem \<Rightarrow> path \<Rightarrow> node option" where
  "stat f p = (if p = [] then Some Dir else map_of f p)"

definition path_is_dir :: "filesystem \<Rightarrow> path \<Rightarrow> bool" where
  "path_is_dir f p = (stat f p = Some Dir)"

text \<open>
  The error of resolving a path that is absent, walking its components from the
  directory \<open>pre\<close>: \<open>NotADirectoryError\<close> when the walk meets a regular file,
  \<open>FileNotFoundError\<close> when it meets a name that does not exist.
\<close>

fun missing_error :: "filesystem \<Rightarrow> path \<Rightarrow> path \<Rightarrow> exn" where
  "missing_error f pre [] = FileNotFoundError"
| "missing_error f pre (c # cs) =
     (case stat f (pre @ [c]) of
        None \<Rightarrow> FileNotFoundError
      | Some (File x) \<Rightarrow> NotADirectoryError
      | Some Dir \<Rightarrow> missing_error f (pre @ [c]) cs)"

definition path_mkdir :: "filesystem \<Rightarrow> path \<Rightarrow> exn + filesystem" where
  "path_mkdir f p =
     (case stat f p of
        Some n \<Rightarrow> Inl FileExistsError
      | None \<Rightarrow>
          (case stat f (butlast p) of
             None \<Rightarrow> Inl (missing_error f [] (butlast p))
           | Some (File c) \<Rightarrow> Inl NotADirectoryError
           | Some Dir \<Rightarrow> Inr (AList.update p Dir f)))"

text \<open>
  \<open>Path.iterdir\<close>: the paths of the immediate children, of whatever kind (here in
  the order of the association list; the script only tests membership); it raises
  when the path is absent (\<open>FileNotFoundError\<close>, or \<open>NotADirectoryError\<close> below a
  regular file) or is a regular file.
\<close>

definition path_iterdir :: "filesystem \<Rightarrow> path \<Rightarrow> exn + path list" where
  "path_iterdir f p =
     (case stat f p of
        None \<Rightarrow> Inl (missing_error f [] p)
      | Some (File c) \<Rightarrow> Inl NotADirectoryError
      | Some Dir \<Rightarrow> Inr (map fst (filter (\<lambda>(q, n). q \<noteq> [] \<and> butlast q = p) f)))"

text \<open>\<open>child.name\<close>: the last component.\<close>

definition path_name :: "path \<Rightarrow> string" where
  "path_name p = (if p = [] then [] else last p)"

text \<open>
  \<open>parent.joinpath(name)\<close> for a name without separators (the sanitizer removes both
  slashes, and the replacement titles of \<open>format_title\<close> hold none): an empty name
  or \<open>.\<close> gives the parent itself, \<open>..\<close> the directory above (as the system
  resolves it), any other name one more component.
\<close>

definition joinpath :: "path \<Rightarrow> string \<Rightarrow> path" where
  "joinpath parent name =
     (if name = [] \<or> name = ''.'' then parent
      else if name = ''..'' then butlast parent
      else parent @ [name])"

text \<open>\<open>open(path, 'wb')\<close> creates or truncates a regular file; \<open>f.write\<close> appends to it.\<close>

definition open_wb :: "filesystem \<Rightarrow> path \<Rightarrow> exn + filesystem" where
  "open_wb f p =
     (case stat f p of
        Some Dir \<Rightarrow> Inl IsADirectoryError
      | Some (File c) \<Rightarrow> Inr (AList.update p (File []) f)
      | None \<Rightarrow>
          (case stat f (butlast p) of
             None \<Rightarrow> Inl (missing_error f [] (butlast p))
           | Some (File c) \<Rightarrow> Inl NotADirectoryError
           | Some Dir \<Rightarrow> Inr (AList.update p (File []) f)))"

definition file_write :: "path \<Rightarrow> bytes \<Rightarrow> world \<Rightarrow> world" where
  "file_write p chunk w =
     (case map_of (fs w) p of
        Some (File c) \<Rightarrow> w\<lparr>fs := AList.update p (File (c @ chunk)) (fs w)\<rparr>
      | Some Dir \<Rightarrow> w
      | None \<Rightarrow> w)"

subsection \<open>Feeds, responses and the network\<close>

text \<open>
  A link is a dictionary read by \<open>link['type']\<close> and \<open>link['href']\<close>. An entry is
  read by the attributes \<open>episode.title\<close> and \<open>episode.links\<close>, each of which may be
  absent (\<open>feedparser\<close> gives an entry \<open>links\<close> only when the item has a link or
  an enclosure, and \<open>title\<close> only when it has a title). A parsed feed has the key
  \<open>feed\<close> (a dictionary, read by \<open>['title']\<close>) and is read by the attribute
  \<open>feed_dict.entries\<close>.
\<close>

type_synonym link = "string \<rightharpoonup> string"

record entry =
  title :: "string option"
  links :: "link list option"

record feedparser_dict =
  feed :: "string \<rightharpoonup> string"
  entries :: "entry list option"

record response =
  headers :: "string \<rightharpoonup> string"
  content :: bytes

record outline_entry =
  xmlUrl :: string

type_synonym outline = "outline_entry list list"

text \<open>
  What the libraries answer: \<open>feedparser.parse\<close> (\<open>None\<close> is the value the script
  tests for), \<open>requests.get\<close> and \<open>opml.parse\<close> (\<open>Inl\<close> the exception raised).
\<close>

record env =
  feedparser_parse :: "string \<Rightarrow> feedparser_dict option"
  requests_get :: "string \<Rightarrow> exn + response"
  opml_parse :: "path \<Rightarrow> exn + outline"

definition default_podcasts :: "string list" where
  "default_podcasts =
    [''https://www.patreon.com/rss/darknetdiaries?auth=AGjk3H83-m6SXXOSdN1Ewt3QuIrvU0i6'',
     ''https://darknetdiaries.com/feedfree.xml'',
     ''https://realpython.com/podcasts/rpp/feed'',
     ''https://feeds.megaphone.fm/darknetdiaries'',
     ''https://feeds.eff.org/howtofixtheinternet'',
     ''https://malicious.life/feed/podcast/'',
     ''https://headstuff.org/tag/fireside-podcast/feed/'',
     ''https://www.aclu.org/podcast/feed/'',
     ''https://feeds.soundcloud.com/users/soundcloud:users:40330678/sounds.rss'',
     ''http://www.2600.com/oth-broadband.xml'']"

subsection \<open>\<open>parse_rss_url\<close>, \<open>map_files\<close>, \<open>generate_podcast_episode_urls\<close>\<close>

definition parse_rss_url :: "env \<Rightarrow> string \<Rightarrow> feedparser_dict option" where
  "parse_rss_url E rss_url =
     (let fd = feedparser_parse E rss_url in if fd \<noteq> None then fd else None)"

text \<open>\<open>map_files\<close>: \<open>file_list.append(child.name)\<close> for each child of the directory.\<close>

definition map_files :: "filesystem \<Rightarrow> path \<Rightarrow> exn + string list" where
  "map_files f directory =
     (case path_iterdir f directory of
        Inl e \<Rightarrow> Inl e
      | Inr children \<Rightarrow>
          Inr (fold (\<lambda>child file_list. file_list @ [path_name child]) children []))"

type_synonym episode_dict = "(string \<times> string) list"

text \<open>
  The loop over the links of an episode, with \<open>t\<close> what the attribute \<open>title\<close> of the
  episode holds. The source reads \<open>link['type']\<close>, then \<open>episode.title\<close>, then
  \<open>link['href']\<close>.
\<close>

fun links_loop :: "string option \<Rightarrow> link list \<Rightarrow> episode_dict \<Rightarrow> exn + episode_dict" where
  "links_loop t [] episode_dict = Inr episode_dict"
| "links_loop t (link # rest) episode_dict =
     (case link ''type'' of
        None \<Rightarrow> Inl KeyError
      | Some ty \<Rightarrow>
          if ty = ''audio/mpeg'' then
            (case t of
               None \<Rightarrow> Inl AttributeError
             | Some episode_title \<Rightarrow>
                 (let filename = format_text episode_title;
                      filename = filename @ ''.mp3''
                  in case link ''href'' of
                       None \<Rightarrow> Inl KeyError
                     | Some url \<Rightarrow>
                         links_loop t rest (AList.update url filename episode_dict)))
          else links_loop t rest episode_dict)"

text \<open>The loop over the entries; \<open>episode.links\<close> is read first.\<close>

fun entries_loop :: "entry list \<Rightarrow> episode_dict \<Rightarrow> exn + episode_dict" where
  "entries_loop [] episode_dict = Inr episode_dict"
| "entries_loop (episode # rest) episode_dict =
     (case links episode of
        None \<Rightarrow> Inl AttributeError
      | Some episode_links \<Rightarrow>
          (case links_loop (title episode) episode_links episode_dict of
             Inl e \<Rightarrow> Inl e
           | Inr episode_dict' \<Rightarrow> entries_loop rest episode_dict'))"

definition generate_podcast_episode_urls :: "feedparser_dict \<Rightarrow> exn + episode_dict" where
  "generate_podcast_episode_urls feed_dict =
     (case entries feed_dict of
        None \<Rightarrow> Inl AttributeError
      | Some feed_entries \<Rightarrow> entries_loop feed_entries [])"

subsection \<open>\<open>download_episode\<close>\<close>

text \<open>
  \<open>int(s)\<close> on a header value: surrounding white space, an optional sign, decimal
  digits with single underscores between them; anything else is \<open>ValueError\<close>.
  Only the ASCII blanks and digits are recognised.
\<close>

definition digit_of :: "char \<Rightarrow> nat option" where
  "digit_of c =
     (let k = (of_char c :: nat) in if 48 \<le> k \<and> k \<le> 57 then Some (k - 48) else None)"

fun digits_value :: "string \<Rightarrow> nat \<Rightarrow> nat option" where
  "digits_value [] acc = Some acc"
| "digits_value [c] acc =
     (case digit_of c of None \<Rightarrow> None | Some v \<Rightarrow> Some (10 * acc + v))"
| "digits_value (c # d # ds) acc =
     (if c = CHR ''_'' then
        (case digit_of d of None \<Rightarrow> None | Some v \<Rightarrow> digits_value ds (10 * acc + v))
      else
        (case digit_of c of None \<Rightarrow> None | Some v \<Rightarrow> digits_value (d # ds) (10 * acc + v)))"

definition unsigned_value :: "string \<Rightarrow> nat option" where
  "unsigned_value s =
     (case s of
        [] \<Rightarrow> None
      | c # r \<Rightarrow> (case digit_of c of None \<Rightarrow> None | Some v \<Rightarrow> digits_value r v))"

definition is_space :: "char \<Rightarrow> bool" where
  "is_space c = (c \<in> set [CHR '' '', CHR 0x09, CHR 0x0A, CHR 0x0B, CHR 0x0C, CHR 0x0D])"

definition strip :: "string \<Rightarrow> string" where
  "strip s = rev (dropWhile is_space (rev (dropWhile is_space s)))"

definition py_int :: "string \<Rightarrow> int option" where
  "py_int s =
     (case strip s of
        [] \<Rightarrow> None
      | c # r \<Rightarrow>
          if c = CHR ''-'' then map_option (\<lambda>n. - int n) (unsigned_value r)
          else if c = CHR ''+'' then map_option int (unsigned_value r)
          else map_option int (unsigned_value (c # r)))"

text \<open>
  \<open>response.iter_content(chunk_size)\<close> on a response whose body has been read (the
  script does not ask for streaming): consecutive slices of the body, the last one
  possibly shorter. A chunk size of 0 means one slice of everything.
\<close>

function iter_slices :: "nat \<Rightarrow> bytes \<Rightarrow> bytes list" where
  "iter_slices n xs =
     (if xs = [] then []
      else if n = 0 then [xs]
      else take n xs # iter_slices n (drop n xs))"
  by pat_completeness auto
termination
  by (relation "measure (\<lambda>(n, xs). length xs)") auto

declare iter_slices.simps [simp del]

text \<open>The loop \<open>for chunk in ...: f.write(chunk)\<close>. It does not read \<open>done_event\<close>.\<close>

definition write_chunks :: "path \<Rightarrow> bytes list \<Rightarrow> world \<Rightarrow> world" where
  "write_chunks download_path chunks w = fold (\<lambda>chunk w. file_write download_path chunk w) chunks w"

definition download_episode ::
    "env \<Rightarrow> path \<Rightarrow> string \<Rightarrow> string \<Rightarrow> world \<Rightarrow> (exn + unit) \<times> world" where
  "download_episode E download_path filename url w =
     (let w1 = console_print (NewEpisode filename) w in
      case requests_get E url of
        Inl e \<Rightarrow> (Inl e, w1)
      | Inr resp \<Rightarrow>
          (case headers resp ''Content-Length'' of
             None \<Rightarrow> (Inl KeyError, w1)
           | Some v \<Rightarrow>
               (case py_int v of
                  None \<Rightarrow> (Inl ValueError, w1)
                | Some content_size \<Rightarrow>
                    (case open_wb (fs w1) download_path of
                       Inl e \<Rightarrow> (Inl e, w1)
                     | Inr f \<Rightarrow>
                         (Inr (),
                          write_chunks download_path (iter_slices 32768 (content resp))
                            (w1\<lparr>fs := f\<rparr>))))))"

subsection \<open>\<open>check_directory\<close>, \<open>make_directory\<close>, \<open>parse_opml\<close>, \<open>parse_outlines\<close>\<close>

definition check_directory :: "filesystem \<Rightarrow> path \<Rightarrow> bool option" where
  "check_directory f directory = (if path_is_dir f directory then Some True else None)"

text \<open>
  \<open>make_directory\<close> catches \<open>NotADirectoryError\<close> and \<open>FileNotFoundError\<close>, prints,
  and returns; any other exception of \<open>mkdir\<close> propagates.
\<close>

definition make_directory :: "path \<Rightarrow> world \<Rightarrow> (exn + unit) \<times> world" where
  "make_directory absolute_path w =
     (case path_mkdir (fs w) absolute_path of
        Inr f \<Rightarrow> (Inr (), w\<lparr>fs := f\<rparr>)
      | Inl e \<Rightarrow>
          if e = NotADirectoryError
            then (Inr (), console_print (DirectoryNameInvalid absolute_path e) w)
          else if e = FileNotFoundError
            then (Inr (), console_print (ParentNotFound absolute_path) w)
          else (Inl e, w))"

definition parse_outlines :: "outline \<Rightarrow> string list" where
  "parse_outlines outline =
     fold (\<lambda>outlines podcasts.
             fold (\<lambda>outline_entry podcasts. podcasts @ [xmlUrl outline_entry]) outlines podcasts)
       outline []"

text \<open>\<open>parse_opml\<close> returns \<open>None\<close> after printing when \<open>opml.parse\<close> raises.\<close>

definition parse_opml :: "env \<Rightarrow> path \<Rightarrow> world \<Rightarrow> string list option \<times> world" where
  "parse_opml E file w =
     (case opml_parse E file of
        Inl e \<Rightarrow> (None, console_print (OpmlException e) w)
      | Inr outline \<Rightarrow> (Some (parse_outlines outline), w))"

subsection \<open>\<open>main\<close>\<close>

text \<open>
  The loop of \<open>main\<close> that fills \<open>new_episodes\<close> from \<open>episodes.items()\<close>, with the
  dictionary built so far as accumulator.
\<close>

fun new_episodes_loop ::
    "bool \<Rightarrow> string list \<Rightarrow> episode_dict \<Rightarrow> episode_dict \<Rightarrow> world \<Rightarrow> episode_dict \<times> world" where
  "new_episodes_loop warnings existing_files [] new_episodes w = (new_episodes, w)"
| "new_episodes_loop warnings existing_files (item # rest) new_episodes w =
     (if snd item \<in> set existing_files then
        (if warnings
           then new_episodes_loop warnings existing_files rest new_episodes
                  (console_print (AlreadyDownloaded (snd item)) w)
         else new_episodes_loop warnings existing_files rest new_episodes w)
      else new_episodes_loop warnings existing_files rest
             (AList.update (fst item) (snd item) new_episodes) w)"

text \<open>The loop of \<open>main\<close> over \<open>new_episodes.items()\<close>; an exception ends it.\<close>

fun download_loop ::
    "env \<Rightarrow> path \<Rightarrow> episode_dict \<Rightarrow> world \<Rightarrow> (exn + unit) \<times> world" where
  "download_loop E podcast_absolute_path [] w = (Inr (), w)"
| "download_loop E podcast_absolute_path (item # rest) w =
     (let download_path = joinpath podcast_absolute_path (snd item) in
      case download_episode E download_path (snd item) (fst item) w of
        (Inl e, w') \<Rightarrow> (Inl e, w')
      | (Inr u, w') \<Rightarrow> download_loop E podcast_absolute_path rest w')"

text \<open>
  The part of the loop body of \<open>main\<close> after the directory name is known: sanitize,
  join, create the directory if absent, list it, extract, reconcile, download.
\<close>

definition process_podcast ::
    "env \<Rightarrow> bool \<Rightarrow> path \<Rightarrow> feedparser_dict \<Rightarrow> string \<Rightarrow> world \<Rightarrow> (exn + unit) \<times> world" where
  "process_podcast E warnings parent_directory feed_dict podcast_directory_name w =
     (let tmp_directory = format_text podcast_directory_name;
          podcast_directory = format_title tmp_directory;
          podcast_absolute_path = joinpath parent_directory podcast_directory;
          is_existing = check_directory (fs w) podcast_absolute_path
      in case (if is_existing = None then make_directory podcast_absolute_path w
               else (Inr (), w)) of
           (Inl e, w1) \<Rightarrow> (Inl e, w1)
         | (Inr u, w1) \<Rightarrow>
             (case map_files (fs w1) podcast_absolute_path of
                Inl e \<Rightarrow> (Inl e, w1)
              | Inr existing_files \<Rightarrow>
                  (case generate_podcast_episode_urls feed_dict of
                     Inl e \<Rightarrow> (Inl e, w1)
                   | Inr episodes \<Rightarrow>
                       (case new_episodes_loop warnings existing_files episodes [] w1 of
                          (new_episodes, w2) \<Rightarrow>
                            download_loop E podcast_absolute_path new_episodes w2))))"

text \<open>
  The loop \<open>for podcast in podcasts\<close>. The local variable \<open>podcast_directory_name\<close>
  lives across iterations: \<open>None\<close> while it is unbound, and the \<open>except KeyError\<close>
  branch prints and falls through without assigning it. The lookup
  \<open>feed['feed']['title']\<close> can raise nothing but \<open>KeyError\<close> on this data, so the
  \<open>except Exception\<close> branch has no counterpart here.
\<close>

fun podcasts_loop ::
    "env \<Rightarrow> bool \<Rightarrow> path \<Rightarrow> string list \<Rightarrow> string option \<Rightarrow> world \<Rightarrow> (exn + unit) \<times> world" where
  "podcasts_loop E warnings parent_directory [] podcast_directory_name w = (Inr (), w)"
| "podcasts_loop E warnings parent_directory (podcast # rest) podcast_directory_name w =
     (case parse_rss_url E podcast of
        None \<Rightarrow>
          podcasts_loop E warnings parent_directory rest podcast_directory_name
            (console_print (MalformedFeed podcast) w)
      | Some feed_dict \<Rightarrow>
          (case (case feed feed_dict ''title'' of
                   Some t \<Rightarrow> (Some t, w)
                 | None \<Rightarrow> (podcast_directory_name, console_print (FeedKeyError podcast) w)) of
             (None, w1) \<Rightarrow> (Inl UnboundLocalError, w1)
           | (Some name, w1) \<Rightarrow>
               (case process_podcast E warnings parent_directory feed_dict name w1 of
                  (Inl e, w2) \<Rightarrow> (Inl e, w2)
                | (Inr u, w2) \<Rightarrow>
                    podcasts_loop E warnings parent_directory rest (Some name) w2)))"

text \<open>
  The command line: \<open>directory\<close> (required by \<open>argparse\<close>, so the script's test
  \<open>not parent_directory\<close> never holds), \<open>--warnings\<close> and \<open>--import\<close>.
\<close>

record args =
  directory :: path
  warnings :: bool
  import_file :: "path option"

datatype outcome = Returned | SysExit nat | Raised exn

text \<open>
  \<open>main\<close>. When \<open>parse_opml\<close> has returned \<open>None\<close>, \<open>for podcast in podcasts\<close>
  raises \<open>TypeError\<close>.
\<close>

definition main :: "env \<Rightarrow> args \<Rightarrow> world \<Rightarrow> outcome \<times> world" where
  "main E a w =
     (let parent_directory = directory a;
          existing_directory = check_directory (fs w) parent_directory
      in if existing_directory = None then (SysExit 1, console_print NotAValidDirectory w)
         else
           (case (case import_file a of
                    Some file \<Rightarrow> parse_opml E file w
                  | None \<Rightarrow> (Some default_podcasts, w)) of
              (None, w1) \<Rightarrow> (Raised TypeError, w1)
            | (Some podcasts, w1) \<Rightarrow>
                (case podcasts_loop E (warnings a) parent_directory podcasts None w1 of
                   (Inl e, w2) \<Rightarrow> (Raised e, w2)
                 | (Inr u, w2) \<Rightarrow> (Returned, w2))))"

subsection \<open>Vocabulary for the statements about the Episode Extractor\<close>

text \<open>
  A link is an audio link when its type is \<open>audio/mpeg\<close>. \<open>link_fault t l\<close> is the
  first read that fails on the link \<open>l\<close> of an entry whose attribute \<open>title\<close> holds
  \<open>t\<close>: the key \<open>type\<close>, then for an audio link the title, then the key \<open>href\<close>.
  \<open>entry_fault\<close> and \<open>feed_fault\<close> are the first read that fails in an entry and in
  a feed, in feed order. \<open>audio_pairs\<close> lists, in feed order, the pair of every audio
  link that has an href, of every entry that has a title.
\<close>

definition is_audio :: "link \<Rightarrow> bool" where
  "is_audio l = (l ''type'' = Some ''audio/mpeg'')"

definition link_fault :: "string option \<Rightarrow> link \<Rightarrow> exn option" where
  "link_fault t l =
     (if l ''type'' = None then Some KeyError
      else if is_audio l \<and> t = None then Some AttributeError
      else if is_audio l \<and> l ''href'' = None then Some KeyError
      else None)"

fun first_fault :: "exn option list \<Rightarrow> exn option" where
  "first_fault [] = None"
| "first_fault (None # xs) = first_fault xs"
| "first_fault (Some e # xs) = Some e"

definition links_of :: "entry \<Rightarrow> link list" where
  "links_of e = (case links e of None \<Rightarrow> [] | Some ls \<Rightarrow> ls)"

definition entries_of :: "feedparser_dict \<Rightarrow> entry list" where
  "entries_of fd = (case entries fd of None \<Rightarrow> [] | Some es \<Rightarrow> es)"

definition entry_fault :: "entry \<Rightarrow> exn option" where
  "entry_fault e =
     (if links e = None then Some AttributeError
      else first_fault (map (link_fault (title e)) (links_of e)))"

definition feed_fault :: "feedparser_dict \<Rightarrow> exn option" where
  "feed_fault fd =
     (if entries fd = None then Some AttributeError
      else first_fault (map entry_fault (entries_of fd)))"

definition link_pairs :: "string option \<Rightarrow> link list \<Rightarrow> (string \<times> string) list" where
  "link_pairs t ls =
     concat (map (\<lambda>l. case (t, l ''href'') of
                         (Some episode_title, Some url) \<Rightarrow>
                           if is_audio l then [(url, format_text episode_title @ ''.mp3'')] else []
                       | (Some episode_title, None) \<Rightarrow> []
                       | (None, h) \<Rightarrow> []) ls)"

definition audio_pairs :: "feedparser_dict \<Rightarrow> (string \<times> string) list" where
  "audio_pairs fd = concat (map (\<lambda>e. link_pairs (title e) (links_of e)) (entries_of fd))"

section \<open>Properties\<close>

subsection \<open>The sanitizer is a filter\<close>

lemma format_text_inner_eq:
  "format_text_inner c t = (if c \<in> set unaccepted then filter (\<lambda>x. x \<noteq> c) t else t)"
proof -
  have gen: "\<And>t. fold (\<lambda>element text. if c = element then replace_empty element text else text) es t
      = (if c \<in> set es then filter (\<lambda>x. x \<noteq> c) t else t)" for es
    by (induction es) (auto simp: replace_empty_def)
  show ?thesis unfolding format_text_inner_def by (rule gen)
qed

lemma fold_format_text_inner:
  "fold format_text_inner cs t = filter (\<lambda>x. \<not> (x \<in> set cs \<and> x \<in> set unaccepted)) t"
proof (induction cs arbitrary: t)
  case Nil
  show ?case by simp
next
  case (Cons c cs)
  have "fold format_text_inner (c # cs) t = fold format_text_inner cs (format_text_inner c t)"
    by simp
  also have "\<dots> = filter (\<lambda>x. \<not> (x \<in> set cs \<and> x \<in> set unaccepted)) (format_text_inner c t)"
    by (rule Cons.IH)
  also have "\<dots> = filter (\<lambda>x. \<not> (x \<in> set (c # cs) \<and> x \<in> set unaccepted)) t"
    unfolding format_text_inner_eq by (auto intro: filter_cong)
  finally show ?case .
qed

lemma format_text_filter: "format_text t = filter (\<lambda>x. x \<notin> set unaccepted) t"
  unfolding format_text_def fold_format_text_inner
  by (rule filter_cong) auto

text \<open>
  C4. The output of the sanitizer holds no blacklisted character; its length is the
  length of the input minus the number of occurrences of blacklisted characters in the
  input (stated as a sum, so that no truncated subtraction is involved); and an input
  without any blacklisted character is returned unchanged.
\<close>

theorem format_text_strips_blacklist:
  "set (format_text t) \<inter> set unaccepted = {}
   \<and> length (format_text t) + length (filter (\<lambda>c. c \<in> set unaccepted) t) = length t
   \<and> length (format_text t) = length t - length (filter (\<lambda>c. c \<in> set unaccepted) t)
   \<and> (set t \<inter> set unaccepted = {} \<longrightarrow> format_text t = t)"
proof -
  have a: "set (format_text t) \<inter> set unaccepted = {}"
    unfolding format_text_filter by auto
  have b: "length (format_text t) + length (filter (\<lambda>c. c \<in> set unaccepted) t) = length t"
    unfolding format_text_filter using sum_length_filter_compl [of "\<lambda>c. c \<in> set unaccepted" t]
    by simp
  have c: "set t \<inter> set unaccepted = {} \<longrightarrow> format_text t = t"
    unfolding format_text_filter by (auto intro: filter_True)
  from a b c show ?thesis by simp
qed

theorem format_text_strips_blacklist_witness:
  "set ''What?'' \<inter> set unaccepted \<noteq> {}
   \<and> format_text ''What?'' = ''What''
   \<and> set (format_text ''What?'') \<inter> set unaccepted = {}
   \<and> length (format_text ''What?'') = length ''What?'' - 1
   \<and> set ''Plain'' \<inter> set unaccepted = {} \<and> format_text ''Plain'' = ''Plain''"
proof -
  have h: "set ''Plain'' \<inter> set unaccepted = {}" by (simp add: unaccepted_def)
  have q: "set ''What?'' \<inter> set unaccepted \<noteq> {}" by (simp add: unaccepted_def)
  have e: "format_text ''What?'' = ''What''"
    by (simp add: format_text_def format_text_inner_def replace_empty_def unaccepted_def)
  from format_text_strips_blacklist [of "''What?''"] format_text_strips_blacklist [of "''Plain''"] h q e
  show ?thesis by simp
qed

text \<open>C9. The sanitizer is idempotent.\<close>

theorem format_text_idempotent: "format_text (format_text x) = format_text x"
  unfolding format_text_filter by simp

subsection \<open>Dictionaries filled by assignment\<close>

lemma update_fresh_key: "k \<notin> fst ` set al \<Longrightarrow> AList.update k v al = al @ [(k, v)]"
  by (induction al) auto

lemma fold_update_distinct:
  "distinct (map fst (acc @ ps))
   \<Longrightarrow> fold (\<lambda>item d. AList.update (fst item) (snd item) d) ps acc = acc @ ps"
proof (induction ps arbitrary: acc)
  case Nil
  show ?case by simp
next
  case (Cons p ps)
  have "fst p \<notin> fst ` set acc" using Cons.prems by auto
  then have "AList.update (fst p) (snd p) acc = acc @ [p]" by (simp add: update_fresh_key)
  moreover have "distinct (map fst ((acc @ [p]) @ ps))" using Cons.prems by simp
  ultimately show ?case using Cons.IH [of "acc @ [p]"] by simp
qed

subsection \<open>Reconciliation\<close>

lemma new_episodes_loop_eq:
  "new_episodes_loop ws ex eps acc w =
     (fold (\<lambda>item d. AList.update (fst item) (snd item) d)
        (filter (\<lambda>item. snd item \<notin> set ex) eps) acc,
      w\<lparr>console := console w @
           (if ws then map (\<lambda>item. AlreadyDownloaded (snd item))
                         (filter (\<lambda>item. snd item \<in> set ex) eps)
            else [])\<rparr>)"
  by (induction eps arbitrary: acc w) (auto simp: console_print_def)

text \<open>
  C2. For an \<open>episodes\<close> dictionary (distinct keys) and any list of existing files, the
  reconciliation loop of \<open>main\<close> yields as \<open>new_episodes\<close> the items of \<open>episodes\<close>
  whose filename is not among the existing files, in order: a pair is in
  \<open>new_episodes\<close> exactly when it is in \<open>episodes\<close> and its filename is not present.
  The console gains one "already downloaded" notice for each excluded item when
  \<open>warnings\<close> is set, and nothing otherwise; the filesystem is left alone.
\<close>

theorem new_episodes_reconciliation:
  assumes "distinct (map fst episodes)"
  shows "fst (new_episodes_loop ws existing_files episodes [] w)
           = filter (\<lambda>item. snd item \<notin> set existing_files) episodes
       \<and> (\<forall>url filename.
            ((url, filename) \<in> set (fst (new_episodes_loop ws existing_files episodes [] w)))
            = ((url, filename) \<in> set episodes \<and> filename \<notin> set existing_files))
       \<and> console (snd (new_episodes_loop ws existing_files episodes [] w))
           = console w @
             (if ws then map (\<lambda>item. AlreadyDownloaded (snd item))
                          (filter (\<lambda>item. snd item \<in> set existing_files) episodes)
              else [])
       \<and> fs (snd (new_episodes_loop ws existing_files episodes [] w)) = fs w"
proof -
  have "distinct (map fst (filter (\<lambda>item. snd item \<notin> set existing_files) episodes))"
    using assms by (simp add: distinct_map_filter)
  then have "fold (\<lambda>item d. AList.update (fst item) (snd item) d)
               (filter (\<lambda>item. snd item \<notin> set existing_files) episodes) []
             = filter (\<lambda>item. snd item \<notin> set existing_files) episodes"
    using fold_update_distinct [of "[]"] by simp
  then show ?thesis
    by (auto simp: new_episodes_loop_eq)
qed

theorem new_episodes_reconciliation_witness:
  "distinct (map fst [(''url1'', ''A.mp3''), (''url2'', ''B.mp3'')])
   \<and> fst (new_episodes_loop True [''A.mp3''] [(''url1'', ''A.mp3''), (''url2'', ''B.mp3'')] []
            \<lparr>fs = [], console = [], done_event = False\<rparr>)
       = [(''url2'', ''B.mp3'')]
   \<and> console (snd (new_episodes_loop True [''A.mp3''] [(''url1'', ''A.mp3''), (''url2'', ''B.mp3'')] []
            \<lparr>fs = [], console = [], done_event = False\<rparr>))
       = [AlreadyDownloaded ''A.mp3'']
   \<and> console (snd (new_episodes_loop False [''A.mp3''] [(''url1'', ''A.mp3''), (''url2'', ''B.mp3'')] []
            \<lparr>fs = [], console = [], done_event = False\<rparr>))
       = []"
proof -
  have d: "distinct (map fst [(''url1'', ''A.mp3''), (''url2'', ''B.mp3'')])" by simp
  from new_episodes_reconciliation [OF d, of True "[''A.mp3'']" "\<lparr>fs = [], console = [], done_event = False\<rparr>"]
       new_episodes_reconciliation [OF d, of False "[''A.mp3'']" "\<lparr>fs = [], console = [], done_event = False\<rparr>"]
       d
  show ?thesis by simp
qed

subsection \<open>More on dictionaries filled by assignment\<close>

lemma map_of_fold_update:
  "map_of (fold (\<lambda>item d. AList.update (fst item) (snd item) d) ps acc) = map_of acc ++ map_of (rev ps)"
proof (induction ps arbitrary: acc)
  case Nil show ?case by simp
next
  case (Cons p ps)
  have "map_of (fold (\<lambda>item d. AList.update (fst item) (snd item) d) (p # ps) acc) = map_of (AList.update (fst p) (snd p) acc) ++ map_of (rev ps)"
    using Cons.IH by simp
  also have "\<dots> = (map_of acc ++ [fst p \<mapsto> snd p]) ++ map_of (rev ps)"
    by (simp add: update_conv')
  also have "\<dots> = map_of acc ++ map_of (rev (p # ps))"
    by (cases p) (simp add: map_add_assoc)
  finally show ?case .
qed

lemma distinct_fold_update:
  "distinct (map fst acc) \<Longrightarrow> distinct (map fst (fold (\<lambda>item d. AList.update (fst item) (snd item) d) ps acc))"
  by (induction ps arbitrary: acc) (auto simp: distinct_update)

lemma set_update_subset: "set (AList.update k v al) \<subseteq> insert (k, v) (set al)"
  by (induction al) auto

lemma set_fold_update: "set (fold (\<lambda>item d. AList.update (fst item) (snd item) d) ps acc) \<subseteq> set acc \<union> set ps"
proof (induction ps arbitrary: acc)
  case Nil show ?case by simp
next
  case (Cons p ps)
  show ?case using Cons.IH [of "AList.update (fst p) (snd p) acc"] set_update_subset [of "fst p" "snd p" acc]
    by auto
qed


subsection \<open>The Episode Extractor\<close>

lemma links_loop_eq:
  "links_loop t ls acc =
     (case first_fault (map (link_fault t) ls) of
        Some e \<Rightarrow> Inl e
      | None \<Rightarrow> Inr (fold (\<lambda>item d. AList.update (fst item) (snd item) d) (link_pairs t ls) acc))"
proof (induction ls arbitrary: acc)
  case Nil
  show ?case by (simp add: link_pairs_def)
next
  case (Cons l ls)
  show ?case
  proof (cases "link_fault t l")
    case None
    then show ?thesis
      using Cons.IH
      by (auto simp: link_fault_def is_audio_def link_pairs_def split: option.splits if_splits)
  next
    case (Some e)
    then show ?thesis
      by (auto simp: link_fault_def is_audio_def split: option.splits if_splits)
  qed
qed

lemma entries_loop_eq:
  "entries_loop es acc =
     (case first_fault (map entry_fault es) of
        Some e \<Rightarrow> Inl e
      | None \<Rightarrow> Inr (fold (\<lambda>item d. AList.update (fst item) (snd item) d)
                      (concat (map (\<lambda>e. link_pairs (title e) (links_of e)) es)) acc))"
proof (induction es arbitrary: acc)
  case Nil
  show ?case by simp
next
  case (Cons x es)
  show ?case
  proof (cases "links x")
    case None
    then have "entry_fault x = Some AttributeError" by (simp add: entry_fault_def)
    with None show ?thesis by simp
  next
    case (Some ls)
    then have lo: "links_of x = ls" by (simp add: links_of_def)
    show ?thesis
    proof (cases "first_fault (map (link_fault (title x)) ls)")
      case None
      with Some lo have ef: "entry_fault x = None" by (simp add: entry_fault_def)
      have "entries_loop (x # es) acc
              = entries_loop es (fold (\<lambda>item d. AList.update (fst item) (snd item) d)
                                   (link_pairs (title x) ls) acc)"
        using Some None by (simp add: links_loop_eq)
      then show ?thesis
        by (simp add: Cons.IH ef lo split: option.splits)
    next
      case (Some e)
      with \<open>links x = Some ls\<close> lo have ef: "entry_fault x = Some e" by (simp add: entry_fault_def)
      have "entries_loop (x # es) acc = Inl e"
        using \<open>links x = Some ls\<close> Some by (simp add: links_loop_eq)
      with ef show ?thesis by simp
    qed
  qed
qed

lemma generate_eq:
  "generate_podcast_episode_urls fd =
     (case feed_fault fd of
        Some e \<Rightarrow> Inl e
      | None \<Rightarrow> Inr (fold (\<lambda>item d. AList.update (fst item) (snd item) d) (audio_pairs fd) []))"
proof (cases "entries fd")
  case None
  then show ?thesis by (simp add: generate_podcast_episode_urls_def feed_fault_def)
next
  case (Some es)
  then have eo: "entries_of fd = es" by (simp add: entries_of_def)
  have ff: "feed_fault fd = first_fault (map entry_fault es)"
    using Some eo by (simp add: feed_fault_def)
  have ap: "audio_pairs fd = concat (map (\<lambda>e. link_pairs (title e) (links_of e)) es)"
    by (simp add: audio_pairs_def eo)
  show ?thesis
    unfolding ff ap using Some by (simp add: generate_podcast_episode_urls_def entries_loop_eq)
qed

lemma first_fault_None: "(first_fault xs = None) = (\<forall>x\<in>set xs. x = None)"
  by (induction xs rule: first_fault.induct) auto

lemma link_fault_None:
  "(link_fault t l = None)
     = (l ''type'' \<noteq> None \<and> (is_audio l \<longrightarrow> t \<noteq> None \<and> l ''href'' \<noteq> None))"
  by (auto simp: link_fault_def)

lemma entry_fault_None:
  "(entry_fault e = None)
     = (links e \<noteq> None
        \<and> (\<forall>l\<in>set (links_of e).
              l ''type'' \<noteq> None \<and> (is_audio l \<longrightarrow> title e \<noteq> None \<and> l ''href'' \<noteq> None)))"
  by (auto simp: entry_fault_def first_fault_None link_fault_None)

lemma feed_fault_None:
  "(feed_fault fd = None)
     = (entries fd \<noteq> None
        \<and> (\<forall>e\<in>set (entries_of fd).
              links e \<noteq> None
              \<and> (\<forall>l\<in>set (links_of e).
                    l ''type'' \<noteq> None
                    \<and> (is_audio l \<longrightarrow> title e \<noteq> None \<and> l ''href'' \<noteq> None))))"
  by (auto simp: feed_fault_def first_fault_None entry_fault_None)

lemma first_fault_cases: "first_fault xs = Some e \<Longrightarrow> Some e \<in> set xs"
  by (induction xs rule: first_fault.induct) auto

lemma link_fault_kind: "link_fault t l = Some e \<Longrightarrow> e = KeyError \<or> e = AttributeError"
  by (auto simp: link_fault_def split: if_splits)

lemma entry_fault_kind: "entry_fault x = Some e \<Longrightarrow> e = KeyError \<or> e = AttributeError"
proof (cases "links x")
  case None
  assume "entry_fault x = Some e"
  with None show ?thesis by (simp add: entry_fault_def)
next
  case (Some ls)
  assume "entry_fault x = Some e"
  with Some have "first_fault (map (link_fault (title x)) (links_of x)) = Some e"
    by (simp add: entry_fault_def)
  then have "Some e \<in> set (map (link_fault (title x)) (links_of x))" by (rule first_fault_cases)
  then obtain l where "link_fault (title x) l = Some e" by auto
  then show ?thesis by (rule link_fault_kind)
qed

lemma feed_fault_kind: "feed_fault fd = Some e \<Longrightarrow> e = KeyError \<or> e = AttributeError"
proof (cases "entries fd")
  case None
  assume "feed_fault fd = Some e"
  with None show ?thesis by (simp add: feed_fault_def)
next
  case (Some es)
  assume "feed_fault fd = Some e"
  with Some have "first_fault (map entry_fault (entries_of fd)) = Some e"
    by (simp add: feed_fault_def)
  then have "Some e \<in> set (map entry_fault (entries_of fd))" by (rule first_fault_cases)
  then obtain x where "entry_fault x = Some e" by auto
  then show ?thesis by (rule entry_fault_kind)
qed

lemma link_pairs_no_audio: "\<forall>l\<in>set ls. \<not> is_audio l \<Longrightarrow> link_pairs t ls = []"
  by (induction ls) (auto simp: link_pairs_def split: option.splits)

lemma audio_pairs_no_audio:
  "\<forall>e\<in>set (entries_of fd). \<forall>l\<in>set (links_of e). \<not> is_audio l \<Longrightarrow> audio_pairs fd = []"
  by (simp add: audio_pairs_def link_pairs_no_audio)


text \<open>
  C3, amended. The extractor returns a dictionary exactly when no read fails: the feed
  has \<open>entries\<close>, every entry has \<open>links\<close>, every link has a \<open>type\<close>, and every
  \<open>audio/mpeg\<close> link has an \<open>href\<close> and stands in an entry that has a \<open>title\<close>.
  Otherwise it raises at the first read that fails in feed order, \<open>AttributeError\<close>
  for an absent attribute and \<open>KeyError\<close> for an absent key. The dictionary \<open>d\<close> it
  returns has distinct keys, holds nothing but pairs (\<open>link.href\<close>, sanitized entry title
  followed by \<open>.mp3\<close>) of \<open>audio/mpeg\<close> links, and maps the href of every
  \<open>audio/mpeg\<close> link to the filename of the last such link with that href in feed order
  (a later link overwrites an earlier one with the same href). When no two
  \<open>audio/mpeg\<close> links share an href, \<open>d\<close> is exactly the list of the pairs of all
  \<open>audio/mpeg\<close> links; when no link is an \<open>audio/mpeg\<close> link, \<open>d\<close> is empty.
\<close>

theorem generate_podcast_episode_urls_mapping:
  "((generate_podcast_episode_urls fd = Inl err) = (feed_fault fd = Some err))
   \<and> (feed_fault fd = Some err \<longrightarrow> err = KeyError \<or> err = AttributeError)
   \<and> ((feed_fault fd = None)
        = (entries fd \<noteq> None
           \<and> (\<forall>e\<in>set (entries_of fd).
                 links e \<noteq> None
                 \<and> (\<forall>l\<in>set (links_of e).
                       l ''type'' \<noteq> None
                       \<and> (is_audio l \<longrightarrow> title e \<noteq> None \<and> l ''href'' \<noteq> None)))))
   \<and> (feed_fault fd = None \<longrightarrow>
        (\<exists>d. generate_podcast_episode_urls fd = Inr d
           \<and> distinct (map fst d)
           \<and> map_of d = map_of (rev (audio_pairs fd))
           \<and> set d \<subseteq> set (audio_pairs fd)
           \<and> (distinct (map fst (audio_pairs fd)) \<longrightarrow> d = audio_pairs fd)
           \<and> ((\<forall>e\<in>set (entries_of fd). \<forall>l\<in>set (links_of e). \<not> is_audio l) \<longrightarrow> d = [])))"
proof -
  let ?d = "fold (\<lambda>item d. AList.update (fst item) (snd item) d) (audio_pairs fd) []"
  have a: "(generate_podcast_episode_urls fd = Inl err) = (feed_fault fd = Some err)"
    by (simp add: generate_eq split: option.splits)
  have b: "feed_fault fd = Some err \<longrightarrow> err = KeyError \<or> err = AttributeError"
    using feed_fault_kind by blast
  note c = feed_fault_None [of fd]
  have g: "feed_fault fd = None \<Longrightarrow> generate_podcast_episode_urls fd = Inr ?d"
    by (simp add: generate_eq)
  have 1: "distinct (map fst ?d)" by (rule distinct_fold_update) simp
  have 2: "map_of ?d = map_of (rev (audio_pairs fd))" by (simp add: map_of_fold_update)
  have 3: "set ?d \<subseteq> set (audio_pairs fd)" using set_fold_update [of "audio_pairs fd" "[]"] by simp
  have 4: "distinct (map fst (audio_pairs fd)) \<longrightarrow> ?d = audio_pairs fd"
    using fold_update_distinct [of "[]" "audio_pairs fd"] by simp
  have 5: "(\<forall>e\<in>set (entries_of fd). \<forall>l\<in>set (links_of e). \<not> is_audio l) \<longrightarrow> ?d = []"
    by (simp add: audio_pairs_no_audio)
  have d: "feed_fault fd = None \<longrightarrow>
        (\<exists>d. generate_podcast_episode_urls fd = Inr d
           \<and> distinct (map fst d)
           \<and> map_of d = map_of (rev (audio_pairs fd))
           \<and> set d \<subseteq> set (audio_pairs fd)
           \<and> (distinct (map fst (audio_pairs fd)) \<longrightarrow> d = audio_pairs fd)
           \<and> ((\<forall>e\<in>set (entries_of fd). \<forall>l\<in>set (links_of e). \<not> is_audio l) \<longrightarrow> d = []))"
    using g 1 2 3 4 5 by blast
  from a b c d show ?thesis by (intro conjI)
qed

theorem generate_podcast_episode_urls_mapping_witness:
  "feed_fault \<lparr>feed = Map.empty, entries = Some
        [\<lparr>title = Some ''Ep: 1'', links = Some [[''type'' \<mapsto> ''text/html'', ''href'' \<mapsto> ''h1''],
                                       [''type'' \<mapsto> ''audio/mpeg'', ''href'' \<mapsto> ''u1'']]\<rparr>,
         \<lparr>title = Some ''Ep 2'', links = Some [[''type'' \<mapsto> ''text/html'', ''href'' \<mapsto> ''h2'']]\<rparr>,
         \<lparr>title = None, links = Some [[''type'' \<mapsto> ''text/html'', ''href'' \<mapsto> ''h3'']]\<rparr>]\<rparr>
     = None
   \<and> generate_podcast_episode_urls \<lparr>feed = Map.empty, entries = Some
        [\<lparr>title = Some ''Ep: 1'', links = Some [[''type'' \<mapsto> ''text/html'', ''href'' \<mapsto> ''h1''],
                                       [''type'' \<mapsto> ''audio/mpeg'', ''href'' \<mapsto> ''u1'']]\<rparr>,
         \<lparr>title = Some ''Ep 2'', links = Some [[''type'' \<mapsto> ''text/html'', ''href'' \<mapsto> ''h2'']]\<rparr>,
         \<lparr>title = None, links = Some [[''type'' \<mapsto> ''text/html'', ''href'' \<mapsto> ''h3'']]\<rparr>]\<rparr>
       = Inr [(''u1'', ''Ep 1.mp3'')]
   \<and> feed_fault \<lparr>feed = Map.empty, entries = Some
        [\<lparr>title = Some ''Ep 2'', links = Some [[''type'' \<mapsto> ''text/html'', ''href'' \<mapsto> ''h2'']]\<rparr>]\<rparr>
     = None
   \<and> \<not> is_audio [''type'' \<mapsto> ''text/html'', ''href'' \<mapsto> ''h2'']
   \<and> generate_podcast_episode_urls \<lparr>feed = Map.empty, entries = Some
        [\<lparr>title = Some ''Ep 2'', links = Some [[''type'' \<mapsto> ''text/html'', ''href'' \<mapsto> ''h2'']]\<rparr>]\<rparr>
       = Inr []
   \<and> feed_fault \<lparr>feed = Map.empty, entries = Some
        [\<lparr>title = Some ''Ep 2'', links = None\<rparr>]\<rparr>
     = Some AttributeError
   \<and> generate_podcast_episode_urls \<lparr>feed = Map.empty, entries = Some
        [\<lparr>title = Some ''Ep 2'', links = None\<rparr>]\<rparr>
     = Inl AttributeError"
proof -
  let ?fd = "\<lparr>feed = Map.empty, entries = Some
        [\<lparr>title = Some ''Ep: 1'', links = Some [[''type'' \<mapsto> ''text/html'', ''href'' \<mapsto> ''h1''],
                                       [''type'' \<mapsto> ''audio/mpeg'', ''href'' \<mapsto> ''u1'']]\<rparr>,
         \<lparr>title = Some ''Ep 2'', links = Some [[''type'' \<mapsto> ''text/html'', ''href'' \<mapsto> ''h2'']]\<rparr>,
         \<lparr>title = None, links = Some [[''type'' \<mapsto> ''text/html'', ''href'' \<mapsto> ''h3'']]\<rparr>]\<rparr>"
  let ?fe = "\<lparr>feed = Map.empty, entries = Some
        [\<lparr>title = Some ''Ep 2'', links = Some [[''type'' \<mapsto> ''text/html'', ''href'' \<mapsto> ''h2'']]\<rparr>]\<rparr>"
  let ?fn = "\<lparr>feed = Map.empty, entries = Some [\<lparr>title = Some ''Ep 2'', links = None\<rparr>]\<rparr>"
  have ok: "feed_fault ?fd = None"
    by (simp add: feed_fault_def entries_of_def entry_fault_def links_of_def link_fault_def
          is_audio_def)
  have ap: "audio_pairs ?fd = [(''u1'', ''Ep 1.mp3'')]"
    by (simp add: audio_pairs_def entries_of_def links_of_def link_pairs_def is_audio_def
          format_text_filter unaccepted_def)
  have oke: "feed_fault ?fe = None"
    by (simp add: feed_fault_def entries_of_def entry_fault_def links_of_def link_fault_def
          is_audio_def)
  have k: "\<not> is_audio [''type'' \<mapsto> ''text/html'', ''href'' \<mapsto> ''h2'']"
    by (simp add: is_audio_def)
  have na: "\<forall>e\<in>set (entries_of ?fe). \<forall>l\<in>set (links_of e). \<not> is_audio l"
    by (simp add: entries_of_def links_of_def is_audio_def)
  have bad: "feed_fault ?fn = Some AttributeError"
    by (simp add: feed_fault_def entries_of_def entry_fault_def)
  from generate_podcast_episode_urls_mapping [of ?fd] ok ap
  have a: "generate_podcast_episode_urls ?fd = Inr [(''u1'', ''Ep 1.mp3'')]" by auto
  from generate_podcast_episode_urls_mapping [of ?fe] oke na
  have b: "generate_podcast_episode_urls ?fe = Inr []" by auto
  from generate_podcast_episode_urls_mapping [of ?fn AttributeError] bad
  have c: "generate_podcast_episode_urls ?fn = Inl AttributeError" by blast
  from ok a oke k b bad c show ?thesis by (intro conjI)
qed

text \<open>
  C3 as stated fails. Two entries whose \<open>audio/mpeg\<close> links share one href leave a
  single pair, that of the later entry, so the pair of the earlier entry is not in the
  result. An entry that has a title and no \<open>links\<close> (an item without link and
  enclosure) has no \<open>audio/mpeg\<close> link, and the extractor raises \<open>AttributeError\<close>
  on it instead of returning the empty mapping. A link without \<open>type\<close> makes it raise
  \<open>KeyError\<close>.
\<close>

theorem generate_podcast_episode_urls_counterexample:
  "generate_podcast_episode_urls \<lparr>feed = Map.empty, entries = Some
      [\<lparr>title = Some ''a'', links = Some [[''type'' \<mapsto> ''audio/mpeg'', ''href'' \<mapsto> ''u'']]\<rparr>,
       \<lparr>title = Some ''b'', links = Some [[''type'' \<mapsto> ''audio/mpeg'', ''href'' \<mapsto> ''u'']]\<rparr>]\<rparr>
     = Inr [(''u'', ''b.mp3'')]
   \<and> (''u'', format_text ''a'' @ ''.mp3'') \<notin> set [(''u'', ''b.mp3'')]
   \<and> generate_podcast_episode_urls \<lparr>feed = Map.empty, entries = Some
      [\<lparr>title = Some ''a'', links = None\<rparr>]\<rparr>
     = Inl AttributeError
   \<and> generate_podcast_episode_urls \<lparr>feed = Map.empty, entries = Some
      [\<lparr>title = Some ''a'', links = Some [[''href'' \<mapsto> ''u'']]\<rparr>]\<rparr>
     = Inl KeyError"
  by (simp add: generate_podcast_episode_urls_def format_text_filter unaccepted_def)

subsection \<open>Listing a directory\<close>

lemma fold_append_map: "fold (\<lambda>child file_list. file_list @ [g child]) xs acc = acc @ map g xs"
  by (induction xs arbitrary: acc) auto

lemma map_files_dir:
  "stat f d = Some Dir \<Longrightarrow>
   map_files f d = Inr (map (\<lambda>x. path_name (fst x)) (filter (\<lambda>(q, n). q \<noteq> [] \<and> butlast q = d) f))"
  by (simp add: map_files_def path_iterdir_def fold_append_map comp_def)

lemma map_files_Inr_dir: "map_files f d = Inr names \<Longrightarrow> stat f d = Some Dir"
  by (auto simp: map_files_def path_iterdir_def split: option.splits node.splits sum.splits)

lemma children_names:
  "set (map (\<lambda>x. path_name (fst x)) (filter (\<lambda>(q, n). q \<noteq> [] \<and> butlast q = d) f))
     = {n. stat f (d @ [n]) \<noteq> None}"
proof (intro set_eqI iffI)
  fix n
  assume "n \<in> set (map (\<lambda>x. path_name (fst x)) (filter (\<lambda>(q, n). q \<noteq> [] \<and> butlast q = d) f))"
  then obtain q nd where m: "(q, nd) \<in> set f" and q: "q \<noteq> []" "butlast q = d" and n: "n = path_name q"
    by auto
  from q n have "d @ [n] = q" using append_butlast_last_id [of q] by (simp add: path_name_def)
  moreover from m have "map_of f q \<noteq> None"
    by (metis fst_conv image_eqI map_of_eq_None_iff)
  ultimately show "n \<in> {n. stat f (d @ [n]) \<noteq> None}" by (simp add: stat_def)
next
  fix n
  assume "n \<in> {n. stat f (d @ [n]) \<noteq> None}"
  then have "map_of f (d @ [n]) \<noteq> None" by (simp add: stat_def)
  then obtain nd where "(d @ [n], nd) \<in> set f" by (auto dest: map_of_SomeD)
  then have "(d @ [n], nd) \<in> set (filter (\<lambda>(q, n). q \<noteq> [] \<and> butlast q = d) f)" by simp
  then have "path_name (fst (d @ [n], nd)) \<in> set (map (\<lambda>x. path_name (fst x)) (filter (\<lambda>(q, n). q \<noteq> [] \<and> butlast q = d) f))"
    by (metis (no_types, lifting) image_eqI set_map)
  then show "n \<in> set (map (\<lambda>x. path_name (fst x)) (filter (\<lambda>(q, n). q \<noteq> [] \<and> butlast q = d) f))"
    by (simp add: path_name_def)
qed

lemma new_episodes_excludes_existing:
  "filename \<in> set ex \<Longrightarrow> (url, filename) \<notin> set (fst (new_episodes_loop ws ex eps [] w))"
  using set_fold_update [of "filter (\<lambda>item. snd item \<notin> set ex) eps" "[]"]
  by (auto simp: new_episodes_loop_eq)

text \<open>
  C10. For a directory, \<open>map_files\<close> returns the names (last components) of all its
  immediate children, whatever their kind. So when the listing of the podcast directory
  succeeds and a subdirectory there has the name of an episode's filename, that name is
  among the existing files, and reconciliation leaves every pair with that filename out
  of \<open>new_episodes\<close>: the episode is treated as downloaded and is not fetched.
\<close>

theorem map_files_lists_all_children:
  "(stat f d = Some Dir \<longrightarrow>
      (\<exists>names. map_files f d = Inr names \<and> set names = {n. stat f (d @ [n]) \<noteq> None}))
   \<and> (map_files f d = Inr existing_files \<and> stat f (d @ [filename]) = Some Dir \<longrightarrow>
        filename \<in> set existing_files
        \<and> (url, filename) \<notin> set (fst (new_episodes_loop ws existing_files episodes [] w)))"
proof -
  have a: "stat f d = Some Dir \<longrightarrow>
      (\<exists>names. map_files f d = Inr names \<and> set names = {n. stat f (d @ [n]) \<noteq> None})"
    using map_files_dir [of f d] children_names [of d f] by blast
  have b: "filename \<in> set existing_files"
    if "map_files f d = Inr existing_files" "stat f (d @ [filename]) = Some Dir"
  proof -
    from that(1) have "stat f d = Some Dir" by (rule map_files_Inr_dir)
    with that(1) have "set existing_files = {n. stat f (d @ [n]) \<noteq> None}"
      using map_files_dir [of f d] children_names [of d f] by simp
    with that(2) show ?thesis by simp
  qed
  from a b new_episodes_excludes_existing show ?thesis by blast
qed


theorem map_files_lists_all_children_witness:
  "stat [([''P''], Dir), ([''P'', ''Show''], Dir), ([''P'', ''Show'', ''Ep 1.mp3''], Dir),
         ([''P'', ''Show'', ''notes.txt''], File [])] [''P'', ''Show''] = Some Dir
   \<and> stat [([''P''], Dir), ([''P'', ''Show''], Dir), ([''P'', ''Show'', ''Ep 1.mp3''], Dir),
         ([''P'', ''Show'', ''notes.txt''], File [])] ([''P'', ''Show''] @ [''Ep 1.mp3'']) = Some Dir
   \<and> map_files [([''P''], Dir), ([''P'', ''Show''], Dir), ([''P'', ''Show'', ''Ep 1.mp3''], Dir),
         ([''P'', ''Show'', ''notes.txt''], File [])] [''P'', ''Show'']
       = Inr [''Ep 1.mp3'', ''notes.txt'']
   \<and> (''u1'', ''Ep 1.mp3'') \<notin> set (fst (new_episodes_loop False [''Ep 1.mp3'', ''notes.txt'']
         [(''u1'', ''Ep 1.mp3''), (''u2'', ''Ep 2.mp3'')] []
         \<lparr>fs = [], console = [], done_event = False\<rparr>))
   \<and> process_podcast
         \<lparr>feedparser_parse = (\<lambda>u. None),
          requests_get = (\<lambda>u. Inr \<lparr>headers = [''Content-Length'' \<mapsto> ''1''], content = [7]\<rparr>),
          opml_parse = (\<lambda>p. Inr [])\<rparr>
         False [''P'']
         \<lparr>feed = [''title'' \<mapsto> ''Show''],
          entries = Some [\<lparr>title = Some ''Ep 1'',
                      links = Some [[''type'' \<mapsto> ''audio/mpeg'', ''href'' \<mapsto> ''u1'']]\<rparr>]\<rparr>
         ''Show''
         \<lparr>fs = [([''P''], Dir), ([''P'', ''Show''], Dir), ([''P'', ''Show'', ''Ep 1.mp3''], Dir),
                ([''P'', ''Show'', ''notes.txt''], File [])],
          console = [], done_event = False\<rparr>
       = (Inr (),
         \<lparr>fs = [([''P''], Dir), ([''P'', ''Show''], Dir), ([''P'', ''Show'', ''Ep 1.mp3''], Dir),
                ([''P'', ''Show'', ''notes.txt''], File [])],
          console = [], done_event = False\<rparr>)"
proof -
  let ?f = "[([''P''], Dir), ([''P'', ''Show''], Dir), ([''P'', ''Show'', ''Ep 1.mp3''], Dir),
         ([''P'', ''Show'', ''notes.txt''], File [])]"
  have s1: "stat ?f [''P'', ''Show''] = Some Dir" by (simp add: stat_def)
  have s2: "stat ?f ([''P'', ''Show''] @ [''Ep 1.mp3'']) = Some Dir" by (simp add: stat_def)
  have m: "map_files ?f [''P'', ''Show''] = Inr [''Ep 1.mp3'', ''notes.txt'']"
    by (simp add: map_files_def path_iterdir_def stat_def path_name_def)
  have ft: "format_text ''Show'' = ''Show''" "format_text ''Ep 1'' = ''Ep 1''"
    by (simp_all add: format_text_def format_text_inner_def replace_empty_def unaccepted_def)
  have p: "process_podcast
         \<lparr>feedparser_parse = (\<lambda>u. None),
          requests_get = (\<lambda>u. Inr \<lparr>headers = [''Content-Length'' \<mapsto> ''1''], content = [7]\<rparr>),
          opml_parse = (\<lambda>p. Inr [])\<rparr>
         False [''P'']
         \<lparr>feed = [''title'' \<mapsto> ''Show''],
          entries = Some [\<lparr>title = Some ''Ep 1'',
                      links = Some [[''type'' \<mapsto> ''audio/mpeg'', ''href'' \<mapsto> ''u1'']]\<rparr>]\<rparr>
         ''Show''
         \<lparr>fs = ?f, console = [], done_event = False\<rparr>
       = (Inr (), \<lparr>fs = ?f, console = [], done_event = False\<rparr>)"
    by (simp add: process_podcast_def Let_def ft format_title_def joinpath_def check_directory_def
          path_is_dir_def s1 m generate_podcast_episode_urls_def)
  from map_files_lists_all_children [of ?f "[''P'', ''Show'']" "[''Ep 1.mp3'', ''notes.txt'']"
         "''Ep 1.mp3''" "''u1''" False "[(''u1'', ''Ep 1.mp3''), (''u2'', ''Ep 2.mp3'')]"
         "\<lparr>fs = [], console = [], done_event = False\<rparr>"] s1 s2 m p
  show ?thesis by simp
qed

subsection \<open>The Downloader\<close>

lemma file_write_handle_sigint:
  "file_write p ch (handle_sigint w) = handle_sigint (file_write p ch w)"
  by (simp add: file_write_def handle_sigint_def split: option.splits node.splits)

lemma write_chunks_handle_sigint:
  "write_chunks p chunks (handle_sigint w) = handle_sigint (write_chunks p chunks w)"
  unfolding write_chunks_def
  by (induction chunks arbitrary: w) (simp_all add: file_write_handle_sigint)

lemma console_print_handle_sigint:
  "console_print m (handle_sigint w) = handle_sigint (console_print m w)"
  by (simp add: console_print_def handle_sigint_def)

lemma fs_handle_sigint: "fs (handle_sigint w) = fs w"
  by (simp add: handle_sigint_def)

lemma fs_update_handle_sigint: "(handle_sigint w)\<lparr>fs := f\<rparr> = handle_sigint (w\<lparr>fs := f\<rparr>)"
  by (simp add: handle_sigint_def)

lemma download_episode_handle_sigint:
  "download_episode E p filename url (handle_sigint w)
     = (case download_episode E p filename url w of (r, w') \<Rightarrow> (r, handle_sigint w'))"
  by (simp add: download_episode_def Let_def console_print_handle_sigint fs_handle_sigint
        fs_update_handle_sigint write_chunks_handle_sigint
      split: sum.splits option.splits)

text \<open>
  C1: what the code does at an input where the claim fails. Setting the flag
  (\<open>handle_sigint\<close>) changes nothing in what a download does: \<open>download_episode\<close>
  started with the flag set returns what it returns without it, with the same
  filesystem and console, and the chunk loop commutes with the handler at whatever
  chunk boundary the signal arrives. With the flag set before a download of three
  chunks of 32 KiB starts, \<open>download_episode\<close> returns normally with all
  \<open>3 * 32768\<close> bytes written to the file.
\<close>

theorem download_episode_ignores_done_event:
  "download_episode E p filename url (handle_sigint w)
     = (case download_episode E p filename url w of (r, w') \<Rightarrow> (r, handle_sigint w'))
   \<and> write_chunks p (earlier @ later) (handle_sigint w)
     = write_chunks p later (handle_sigint (write_chunks p earlier w))
   \<and> fs (write_chunks p later (handle_sigint w)) = fs (write_chunks p later w)
   \<and> done_event (handle_sigint \<lparr>fs = [([''P''], Dir)], console = [], done_event = False\<rparr>)
   \<and> fst (download_episode
         \<lparr>feedparser_parse = (\<lambda>u. None),
          requests_get = (\<lambda>u. Inr \<lparr>headers = [''Content-Length'' \<mapsto> ''98304''],
                                     content = replicate 98304 0\<rparr>),
          opml_parse = (\<lambda>p. Inr [])\<rparr>
         [''P'', ''a.mp3''] ''a.mp3'' ''u''
         (handle_sigint \<lparr>fs = [([''P''], Dir)], console = [], done_event = False\<rparr>)) = Inr ()
   \<and> map_option (\<lambda>n. case n of File c \<Rightarrow> length c | Dir \<Rightarrow> 0)
       (stat (fs (snd (download_episode
         \<lparr>feedparser_parse = (\<lambda>u. None),
          requests_get = (\<lambda>u. Inr \<lparr>headers = [''Content-Length'' \<mapsto> ''98304''],
                                     content = replicate 98304 0\<rparr>),
          opml_parse = (\<lambda>p. Inr [])\<rparr>
         [''P'', ''a.mp3''] ''a.mp3'' ''u''
         (handle_sigint \<lparr>fs = [([''P''], Dir)], console = [], done_event = False\<rparr>))))
          [''P'', ''a.mp3''])
     = Some (3 * 32768)"
proof -
  have g: "download_episode E p filename url (handle_sigint w)
     = (case download_episode E p filename url w of (r, w') \<Rightarrow> (r, handle_sigint w'))"
    by (rule download_episode_handle_sigint)
  have a: "write_chunks p (earlier @ later) (handle_sigint w)
     = write_chunks p later (handle_sigint (write_chunks p earlier w))"
    by (simp add: write_chunks_def file_write_handle_sigint
          write_chunks_handle_sigint [unfolded write_chunks_def])
  have b: "fs (write_chunks p later (handle_sigint w)) = fs (write_chunks p later w)"
    unfolding write_chunks_handle_sigint by (simp add: handle_sigint_def)
  have i: "py_int ''98304'' = Some 98304"
    by (simp add: py_int_def strip_def is_space_def unsigned_value_def digit_of_def)
  have s: "iter_slices 32768 (replicate 98304 (0::8 word))
             = [replicate 32768 0, replicate 32768 0, replicate 32768 0]"
    by (simp add: iter_slices.simps)
  have d: "download_episode
         \<lparr>feedparser_parse = (\<lambda>u. None),
          requests_get = (\<lambda>u. Inr \<lparr>headers = [''Content-Length'' \<mapsto> ''98304''],
                                     content = replicate 98304 0\<rparr>),
          opml_parse = (\<lambda>p. Inr [])\<rparr>
         [''P'', ''a.mp3''] ''a.mp3'' ''u''
         (handle_sigint \<lparr>fs = [([''P''], Dir)], console = [], done_event = False\<rparr>)
       = (Inr (),
          \<lparr>fs = [([''P''], Dir),
                 ([''P'', ''a.mp3''],
                  File (replicate 32768 0 @ replicate 32768 0 @ replicate 32768 0))],
           console = [NewEpisode ''a.mp3''], done_event = True\<rparr>)"
    by (simp add: download_episode_def Let_def console_print_def handle_sigint_def i s
          open_wb_def stat_def write_chunks_def file_write_def)
  have c: "done_event (handle_sigint \<lparr>fs = [([''P''], Dir)], console = [], done_event = False\<rparr>)"
    by (simp add: handle_sigint_def)
  show ?thesis
    unfolding d using g a b c by (simp add: stat_def)
qed

subsection \<open>Runs of \<open>main\<close>\<close>

text \<open>Evaluation rules for the concrete runs below.\<close>

lemma format_text_examples:
  "format_text ''Show'' = ''Show''" "format_text ''Ep 1'' = ''Ep 1''"
  "format_text ''Ep 2'' = ''Ep 2''" "format_text ''Ep 3'' = ''Ep 3''"
  "format_text ''Other'' = ''Other''"
  by (simp_all add: format_text_filter unaccepted_def)

lemma format_title_examples:
  "format_title ''Show'' = ''Show''" "format_title ''Other'' = ''Other''"
  by (simp_all add: format_title_def)

lemma py_int_1: "py_int ''1'' = Some 1"
  by (simp add: py_int_def strip_def is_space_def unsigned_value_def digit_of_def)

lemma iter_slices_7: "iter_slices 32768 [7] = [[7]]"
  by (simp add: iter_slices.simps)

lemmas run_simps =
  main_def Let_def check_directory_def path_is_dir_def stat_def parse_opml_def
  parse_outlines_def console_print_def parse_rss_url_def process_podcast_def
  format_text_examples format_title_examples joinpath_def make_directory_def
  path_mkdir_def map_files_def path_iterdir_def generate_podcast_episode_urls_def
  download_episode_def py_int_1 iter_slices_7 open_wb_def write_chunks_def file_write_def

subsection \<open>Exceptions that end the run\<close>

lemma download_episode_no_length:
  "requests_get E url = Inr resp \<Longrightarrow> headers resp ''Content-Length'' = None \<Longrightarrow>
   download_episode E download_path filename url w
     = (Inl KeyError, console_print (NewEpisode filename) w)"
  by (simp add: download_episode_def)

lemma download_loop_append:
  "download_loop E d pre w = (Inr (), w1) \<Longrightarrow>
   download_loop E d (pre @ items) w = download_loop E d items w1"
proof (induction pre arbitrary: w)
  case Nil
  then show ?case by simp
next
  case (Cons item pre)
  obtain r w' where de: "download_episode E (joinpath d (snd item)) (snd item) (fst item) w = (r, w')"
    by (cases "download_episode E (joinpath d (snd item)) (snd item) (fst item) w")
  show ?case
  proof (cases r)
    case (Inl e)
    with de Cons.prems show ?thesis by simp
  next
    case (Inr u)
    with de Cons.prems have "download_loop E d pre w' = (Inr (), w1)" by simp
    from Cons.IH [OF this] de Inr show ?thesis by simp
  qed
qed

lemma process_podcast_download:
  "(if check_directory (fs w) (joinpath parent (format_title (format_text t))) = None
      then make_directory (joinpath parent (format_title (format_text t))) w
    else (Inr (), w)) = (Inr (), wa) \<Longrightarrow>
   map_files (fs wa) (joinpath parent (format_title (format_text t))) = Inr existing_files \<Longrightarrow>
   generate_podcast_episode_urls fd = Inr episodes \<Longrightarrow>
   new_episodes_loop ws existing_files episodes [] wa = (new_episodes, wb) \<Longrightarrow>
   process_podcast E ws parent fd t w
     = download_loop E (joinpath parent (format_title (format_text t))) new_episodes wb"
  by (simp add: process_podcast_def Let_def)

lemma podcasts_loop_raise:
  "parse_rss_url E podcast = Some fd \<Longrightarrow> feed fd ''title'' = Some t \<Longrightarrow>
   process_podcast E ws parent fd t w = (Inl e, w') \<Longrightarrow>
   podcasts_loop E ws parent (podcast # podcasts) nm w = (Inl e, w')"
  by simp

lemma main_raise:
  "check_directory (fs w) (directory a) \<noteq> None \<Longrightarrow>
   (case import_file a of Some file \<Rightarrow> parse_opml E file w | None \<Rightarrow> (Some default_podcasts, w))
     = (Some podcasts, w1) \<Longrightarrow>
   podcasts_loop E (warnings a) (directory a) podcasts None w1 = (Inl e, w2) \<Longrightarrow>
   main E a w = (Raised e, w2)"
  by (simp add: main_def Let_def)

text \<open>
  C6, amended. When the response to a download has no \<open>Content-Length\<close> header,
  \<open>download_episode\<close> raises \<open>KeyError\<close> right after printing the new-episode notice:
  the output file is not opened and nothing else is printed. Nothing catches the
  exception. The episode loop, wherever the episode stands in \<open>new_episodes\<close>, ends
  with it once the earlier downloads have returned, without starting the later ones;
  the iteration of the podcast loop that reaches this download ends with it, without
  going on to the later podcasts; and \<open>main\<close> ends with the exception its podcast loop
  ends with.
\<close>

theorem missing_content_length_aborts_run:
  assumes "requests_get E url = Inr resp" and "headers resp ''Content-Length'' = None"
  shows "download_episode E download_path filename url w
           = (Inl KeyError, console_print (NewEpisode filename) w)
     \<and> (download_loop E d pre w = (Inr (), wp) \<longrightarrow>
          download_loop E d (pre @ (url, filename) # rest) w
            = (Inl KeyError, console_print (NewEpisode filename) wp))
     \<and> (parse_rss_url E podcast = Some fd \<and> feed fd ''title'' = Some t
          \<and> (if check_directory (fs w) (joinpath parent (format_title (format_text t))) = None
                then make_directory (joinpath parent (format_title (format_text t))) w
              else (Inr (), w)) = (Inr (), wa)
          \<and> map_files (fs wa) (joinpath parent (format_title (format_text t))) = Inr existing_files
          \<and> generate_podcast_episode_urls fd = Inr episodes
          \<and> new_episodes_loop ws existing_files episodes [] wa = (pre @ (url, filename) # rest, wb)
          \<and> download_loop E (joinpath parent (format_title (format_text t))) pre wb = (Inr (), wc)
          \<longrightarrow> podcasts_loop E ws parent (podcast # podcasts) nm w
                = (Inl KeyError, console_print (NewEpisode filename) wc))
     \<and> (check_directory (fs w) (directory a) \<noteq> None
          \<and> (case import_file a of Some file \<Rightarrow> parse_opml E file w
                                  | None \<Rightarrow> (Some default_podcasts, w)) = (Some ps, wr)
          \<and> podcasts_loop E (warnings a) (directory a) ps None wr = (Inl KeyError, wz)
          \<longrightarrow> main E a w = (Raised KeyError, wz))"
proof -
  have A: "download_episode E p filename url v = (Inl KeyError, console_print (NewEpisode filename) v)"
    for p v
    using assms by (rule download_episode_no_length)
  have B: "download_loop E q pre v = (Inr (), vp) \<Longrightarrow>
          download_loop E q (pre @ (url, filename) # rest) v
            = (Inl KeyError, console_print (NewEpisode filename) vp)" for q v vp
    by (simp add: download_loop_append A)
  have C: "podcasts_loop E ws parent (podcast # podcasts) nm w
                = (Inl KeyError, console_print (NewEpisode filename) wc)"
    if h: "parse_rss_url E podcast = Some fd" "feed fd ''title'' = Some t"
      "(if check_directory (fs w) (joinpath parent (format_title (format_text t))) = None
                then make_directory (joinpath parent (format_title (format_text t))) w
              else (Inr (), w)) = (Inr (), wa)"
      "map_files (fs wa) (joinpath parent (format_title (format_text t))) = Inr existing_files"
      "generate_podcast_episode_urls fd = Inr episodes"
      "new_episodes_loop ws existing_files episodes [] wa = (pre @ (url, filename) # rest, wb)"
      "download_loop E (joinpath parent (format_title (format_text t))) pre wb = (Inr (), wc)"
  proof -
    have "process_podcast E ws parent fd t w
       = download_loop E (joinpath parent (format_title (format_text t))) (pre @ (url, filename) # rest) wb"
      by (rule process_podcast_download [OF h(3) h(4) h(5) h(6)])
    also have "\<dots> = (Inl KeyError, console_print (NewEpisode filename) wc)"
      by (rule B [OF h(7)])
    finally show ?thesis by (rule podcasts_loop_raise [OF h(1) h(2)])
  qed
  have D: "main E a w = (Raised KeyError, wz)"
    if "check_directory (fs w) (directory a) \<noteq> None"
       "(case import_file a of Some file \<Rightarrow> parse_opml E file w
                                  | None \<Rightarrow> (Some default_podcasts, w)) = (Some ps, wr)"
       "podcasts_loop E (warnings a) (directory a) ps None wr = (Inl KeyError, wz)"
    using that by (rule main_raise)
  from A B C D show ?thesis by blast
qed

text \<open>
  C6 as stated fails: two feeds, the first with two episodes, and the response for the
  first episode has no \<open>Content-Length\<close>. The run ends with \<open>KeyError\<close>; the console
  shows the new-episode notice only, the second episode is not downloaded, and the
  second feed is not processed.
\<close>

theorem missing_content_length_counterexample:
  "main
        \<lparr>feedparser_parse =
           (\<lambda>u. if u = ''feed1''
                then Some \<lparr>feed = [''title'' \<mapsto> ''Show''],
                           entries = Some [\<lparr>title = Some ''Ep 1'',
                                       links = Some [[''type'' \<mapsto> ''audio/mpeg'', ''href'' \<mapsto> ''u1'']]\<rparr>,
                                      \<lparr>title = Some ''Ep 2'',
                                       links = Some [[''type'' \<mapsto> ''audio/mpeg'', ''href'' \<mapsto> ''u2'']]\<rparr>]\<rparr>
                else Some \<lparr>feed = [''title'' \<mapsto> ''Other''],
                           entries = Some [\<lparr>title = Some ''Ep 3'',
                                       links = Some [[''type'' \<mapsto> ''audio/mpeg'', ''href'' \<mapsto> ''u3'']]\<rparr>]\<rparr>),
         requests_get =
           (\<lambda>u. if u = ''u1'' then Inr \<lparr>headers = Map.empty, content = [7]\<rparr>
                else Inr \<lparr>headers = [''Content-Length'' \<mapsto> ''1''], content = [7]\<rparr>),
         opml_parse = (\<lambda>p. Inr [[\<lparr>xmlUrl = ''feed1''\<rparr>, \<lparr>xmlUrl = ''feed2''\<rparr>]])\<rparr>
        \<lparr>directory = [''P''], warnings = False, import_file = Some [''subs.opml'']\<rparr>
        \<lparr>fs = [([''P''], Dir)], console = [], done_event = False\<rparr>
   = (Raised KeyError,
      \<lparr>fs = [([''P''], Dir), ([''P'', ''Show''], Dir)],
       console = [NewEpisode ''Ep 1.mp3''], done_event = False\<rparr>)"
  by (simp add: run_simps)

theorem missing_content_length_aborts_run_witness:
  "requests_get
        \<lparr>feedparser_parse =
           (\<lambda>u. if u = ''feed1''
                then Some \<lparr>feed = [''title'' \<mapsto> ''Show''],
                           entries = Some [\<lparr>title = Some ''Ep 1'',
                                       links = Some [[''type'' \<mapsto> ''audio/mpeg'', ''href'' \<mapsto> ''u1'']]\<rparr>,
                                      \<lparr>title = Some ''Ep 2'',
                                       links = Some [[''type'' \<mapsto> ''audio/mpeg'', ''href'' \<mapsto> ''u2'']]\<rparr>]\<rparr>
                else Some \<lparr>feed = [''title'' \<mapsto> ''Other''],
                           entries = Some [\<lparr>title = Some ''Ep 3'',
                                       links = Some [[''type'' \<mapsto> ''audio/mpeg'', ''href'' \<mapsto> ''u3'']]\<rparr>]\<rparr>),
         requests_get =
           (\<lambda>u. if u = ''u2'' then Inr \<lparr>headers = Map.empty, content = [7]\<rparr>
                else Inr \<lparr>headers = [''Content-Length'' \<mapsto> ''1''], content = [7]\<rparr>),
         opml_parse = (\<lambda>p. Inr [[\<lparr>xmlUrl = ''feed1''\<rparr>, \<lparr>xmlUrl = ''feed2''\<rparr>]])\<rparr> ''u2''
     = Inr \<lparr>headers = Map.empty, content = [7]\<rparr>
   \<and> headers \<lparr>headers = Map.empty, content = [7]\<rparr> ''Content-Length'' = None
   \<and> download_episode
        \<lparr>feedparser_parse =
           (\<lambda>u. if u = ''feed1''
                then Some \<lparr>feed = [''title'' \<mapsto> ''Show''],
                           entries = Some [\<lparr>title = Some ''Ep 1'',
                                       links = Some [[''type'' \<mapsto> ''audio/mpeg'', ''href'' \<mapsto> ''u1'']]\<rparr>,
                                      \<lparr>title = Some ''Ep 2'',
                                       links = Some [[''type'' \<mapsto> ''audio/mpeg'', ''href'' \<mapsto> ''u2'']]\<rparr>]\<rparr>
                else Some \<lparr>feed = [''title'' \<mapsto> ''Other''],
                           entries = Some [\<lparr>title = Some ''Ep 3'',
                                       links = Some [[''type'' \<mapsto> ''audio/mpeg'', ''href'' \<mapsto> ''u3'']]\<rparr>]\<rparr>),
         requests_get =
           (\<lambda>u. if u = ''u2'' then Inr \<lparr>headers = Map.empty, content = [7]\<rparr>
                else Inr \<lparr>headers = [''Content-Length'' \<mapsto> ''1''], content = [7]\<rparr>),
         opml_parse = (\<lambda>p. Inr [[\<lparr>xmlUrl = ''feed1''\<rparr>, \<lparr>xmlUrl = ''feed2''\<rparr>]])\<rparr>
        [''P'', ''Show'', ''Ep 2.mp3''] ''Ep 2.mp3'' ''u2''
        \<lparr>fs = [([''P''], Dir)], console = [], done_event = False\<rparr>
     = (Inl KeyError, \<lparr>fs = [([''P''], Dir)], console = [NewEpisode ''Ep 2.mp3''], done_event = False\<rparr>)
   \<and> main
        \<lparr>feedparser_parse =
           (\<lambda>u. if u = ''feed1''
                then Some \<lparr>feed = [''title'' \<mapsto> ''Show''],
                           entries = Some [\<lparr>title = Some ''Ep 1'',
                                       links = Some [[''type'' \<mapsto> ''audio/mpeg'', ''href'' \<mapsto> ''u1'']]\<rparr>,
                                      \<lparr>title = Some ''Ep 2'',
                                       links = Some [[''type'' \<mapsto> ''audio/mpeg'', ''href'' \<mapsto> ''u2'']]\<rparr>]\<rparr>
                else Some \<lparr>feed = [''title'' \<mapsto> ''Other''],
                           entries = Some [\<lparr>title = Some ''Ep 3'',
                                       links = Some [[''type'' \<mapsto> ''audio/mpeg'', ''href'' \<mapsto> ''u3'']]\<rparr>]\<rparr>),
         requests_get =
           (\<lambda>u. if u = ''u2'' then Inr \<lparr>headers = Map.empty, content = [7]\<rparr>
                else Inr \<lparr>headers = [''Content-Length'' \<mapsto> ''1''], content = [7]\<rparr>),
         opml_parse = (\<lambda>p. Inr [[\<lparr>xmlUrl = ''feed1''\<rparr>, \<lparr>xmlUrl = ''feed2''\<rparr>]])\<rparr>
        \<lparr>directory = [''P''], warnings = False, import_file = Some [''subs.opml'']\<rparr>
        \<lparr>fs = [([''P''], Dir)], console = [], done_event = False\<rparr>
     = (Raised KeyError,
        \<lparr>fs = [([''P''], Dir), ([''P'', ''Show''], Dir), ([''P'', ''Show'', ''Ep 1.mp3''], File [7])],
         console = [NewEpisode ''Ep 1.mp3'', NewEpisode ''Ep 2.mp3''], done_event = False\<rparr>)"
proof -
  let ?E = "\<lparr>feedparser_parse =
           (\<lambda>u. if u = ''feed1''
                then Some \<lparr>feed = [''title'' \<mapsto> ''Show''],
                           entries = Some [\<lparr>title = Some ''Ep 1'',
                                       links = Some [[''type'' \<mapsto> ''audio/mpeg'', ''href'' \<mapsto> ''u1'']]\<rparr>,
                                      \<lparr>title = Some ''Ep 2'',
                                       links = Some [[''type'' \<mapsto> ''audio/mpeg'', ''href'' \<mapsto> ''u2'']]\<rparr>]\<rparr>
                else Some \<lparr>feed = [''title'' \<mapsto> ''Other''],
                           entries = Some [\<lparr>title = Some ''Ep 3'',
                                       links = Some [[''type'' \<mapsto> ''audio/mpeg'', ''href'' \<mapsto> ''u3'']]\<rparr>]\<rparr>),
         requests_get =
           (\<lambda>u. if u = ''u2'' then Inr \<lparr>headers = Map.empty, content = [7]\<rparr>
                else Inr \<lparr>headers = [''Content-Length'' \<mapsto> ''1''], content = [7]\<rparr>),
         opml_parse = (\<lambda>p. Inr [[\<lparr>xmlUrl = ''feed1''\<rparr>, \<lparr>xmlUrl = ''feed2''\<rparr>]])\<rparr>"
  let ?a = "\<lparr>directory = [''P''], warnings = False, import_file = Some [''subs.opml'']\<rparr>"
  let ?w = "\<lparr>fs = [([''P''], Dir)], console = [], done_event = False\<rparr>"
  let ?fd = "\<lparr>feed = [''title'' \<mapsto> ''Show''],
                           entries = Some [\<lparr>title = Some ''Ep 1'',
                                       links = Some [[''type'' \<mapsto> ''audio/mpeg'', ''href'' \<mapsto> ''u1'']]\<rparr>,
                                      \<lparr>title = Some ''Ep 2'',
                                       links = Some [[''type'' \<mapsto> ''audio/mpeg'', ''href'' \<mapsto> ''u2'']]\<rparr>]\<rparr>"
  let ?wa = "\<lparr>fs = [([''P''], Dir), ([''P'', ''Show''], Dir)], console = [], done_event = False\<rparr>"
  let ?wc = "\<lparr>fs = [([''P''], Dir), ([''P'', ''Show''], Dir), ([''P'', ''Show'', ''Ep 1.mp3''], File [7])],
              console = [NewEpisode ''Ep 1.mp3''], done_event = False\<rparr>"
  let ?abs = "joinpath [''P''] (format_title (format_text ''Show''))"
  have h1: "requests_get ?E ''u2'' = Inr \<lparr>headers = Map.empty, content = [7]\<rparr>" by simp
  have h2: "headers \<lparr>headers = Map.empty, content = [7]\<rparr> ''Content-Length'' = None" by simp
  note T = missing_content_length_aborts_run [OF h1 h2]
  have abs: "?abs = [''P'', ''Show'']" by (simp add: run_simps)
  have c1: "parse_rss_url ?E ''feed1'' = Some ?fd" by (simp add: run_simps)
  have c2: "feed ?fd ''title'' = Some ''Show''" by simp
  have c3: "(if check_directory (fs ?w) ?abs = None then make_directory ?abs ?w else (Inr (), ?w))
              = (Inr (), ?wa)"
    unfolding abs by (simp add: run_simps)
  have c4: "map_files (fs ?wa) ?abs = Inr []" unfolding abs by (simp add: run_simps)
  have c5: "generate_podcast_episode_urls ?fd = Inr [(''u1'', ''Ep 1.mp3''), (''u2'', ''Ep 2.mp3'')]"
    by (simp add: run_simps)
  have c6: "new_episodes_loop False [] [(''u1'', ''Ep 1.mp3''), (''u2'', ''Ep 2.mp3'')] [] ?wa
              = ([(''u1'', ''Ep 1.mp3'')] @ (''u2'', ''Ep 2.mp3'') # [], ?wa)"
    by simp
  have c7: "download_loop ?E ?abs [(''u1'', ''Ep 1.mp3'')] ?wa = (Inr (), ?wc)"
    unfolding abs by (simp add: run_simps)
  have loop: "podcasts_loop ?E False [''P''] (''feed1'' # [''feed2'']) None ?w
                = (Inl KeyError, console_print (NewEpisode ''Ep 2.mp3'') ?wc)"
    using T [where podcast = "''feed1''" and fd = ?fd and t = "''Show''" and w = ?w
               and parent = "[''P'']" and wa = ?wa and existing_files = "[]"
               and episodes = "[(''u1'', ''Ep 1.mp3''), (''u2'', ''Ep 2.mp3'')]"
               and ws = False and pre = "[(''u1'', ''Ep 1.mp3'')]" and filename = "''Ep 2.mp3''"
               and rest = "[]" and wb = ?wa and wc = ?wc and podcasts = "[''feed2'']" and nm = None]
          c1 c2 c3 c4 c5 c6 c7
    by blast
  have r1: "check_directory (fs ?w) (directory ?a) \<noteq> None" by (simp add: run_simps)
  have r2: "(case import_file ?a of Some file \<Rightarrow> parse_opml ?E file ?w
                                  | None \<Rightarrow> (Some default_podcasts, ?w))
              = (Some [''feed1'', ''feed2''], ?w)"
    by (simp add: run_simps)
  have m: "main ?E ?a ?w = (Raised KeyError, console_print (NewEpisode ''Ep 2.mp3'') ?wc)"
    using T [where w = ?w and a = ?a and ps = "[''feed1'', ''feed2'']" and wr = ?w
               and wz = "console_print (NewEpisode ''Ep 2.mp3'') ?wc"]
          r1 r2 loop
    by simp
  have d: "download_episode ?E [''P'', ''Show'', ''Ep 2.mp3''] ''Ep 2.mp3'' ''u2'' ?w
             = (Inl KeyError, console_print (NewEpisode ''Ep 2.mp3'') ?w)"
    using T [where w = ?w and filename = "''Ep 2.mp3''" and download_path = "[''P'', ''Show'', ''Ep 2.mp3'']"]
    by blast
  from h1 h2 d m show ?thesis by (simp add: console_print_def)
qed

text \<open>
  C8: what the code does at an input where the claim fails. With \<open>--import\<close> given
  and \<open>opml.parse\<close> raising, \<open>parse_opml\<close> prints the error once and returns \<open>None\<close>;
  \<open>main\<close> then iterates over \<open>None\<close> and ends with \<open>TypeError\<close>.
\<close>

theorem parse_opml_failure_raises_TypeError:
  "main \<lparr>feedparser_parse = (\<lambda>u. None),
         requests_get = (\<lambda>u. Inl (OtherError ''offline'')),
         opml_parse = (\<lambda>p. Inl (OtherError ''not well-formed''))\<rparr>
        \<lparr>directory = [''P''], warnings = False, import_file = Some [''subs.opml'']\<rparr>
        \<lparr>fs = [([''P''], Dir)], console = [], done_event = False\<rparr>
   = (Raised TypeError,
      \<lparr>fs = [([''P''], Dir)], console = [OpmlException (OtherError ''not well-formed'')],
       done_event = False\<rparr>)"
  by (simp add: run_simps)

text \<open>
  C5: what the code does at inputs where the claim fails. The podcast loop runs in a
  world where the parent directory is absent, or is a regular file. \<open>make_directory\<close>
  is attempted first, catches the exception of \<open>mkdir\<close> and prints; the listing of the
  absent directory by \<open>map_files\<close> then raises, nothing catches it, and the loop ends
  with that exception before the second feed and before any download.
\<close>

theorem creation_failure_then_listing_raises:
  "podcasts_loop
      \<lparr>feedparser_parse = (\<lambda>u. Some \<lparr>feed = [''title'' \<mapsto> ''Show''], entries = Some []\<rparr>),
       requests_get = (\<lambda>u. Inl (OtherError ''offline'')),
       opml_parse = (\<lambda>p. Inr [])\<rparr>
      False [''P''] [''feed1'', ''feed2''] None
      \<lparr>fs = [], console = [], done_event = False\<rparr>
   = (Inl FileNotFoundError,
      \<lparr>fs = [], console = [ParentNotFound [''P'', ''Show'']], done_event = False\<rparr>)
   \<and> podcasts_loop
      \<lparr>feedparser_parse = (\<lambda>u. Some \<lparr>feed = [''title'' \<mapsto> ''Show''], entries = Some []\<rparr>),
       requests_get = (\<lambda>u. Inl (OtherError ''offline'')),
       opml_parse = (\<lambda>p. Inr [])\<rparr>
      False [''P''] [''feed1'', ''feed2''] None
      \<lparr>fs = [([''P''], File [])], console = [], done_event = False\<rparr>
   = (Inl NotADirectoryError,
      \<lparr>fs = [([''P''], File [])],
       console = [DirectoryNameInvalid [''P'', ''Show''] NotADirectoryError],
       done_event = False\<rparr>)"
  by (simp add: run_simps)

text \<open>
  The branch of the podcast loop for a feed that \<open>parse_rss_url\<close> answers with
  \<open>None\<close>: the feed is reported and skipped, and the loop goes on with the next one.
\<close>

lemma podcasts_loop_skips_None:
  "parse_rss_url E podcast = None \<Longrightarrow>
   podcasts_loop E ws parent (podcast # podcasts) nm w
     = podcasts_loop E ws parent podcasts nm (console_print (MalformedFeed podcast) w)"
  by simp

text \<open>
  C7: what the code does at inputs where the claim fails. A feed without a title makes
  the \<open>except KeyError\<close> branch print, and the loop body goes on. When it is the first
  feed, \<open>podcast_directory_name\<close> is unbound and the run ends with
  \<open>UnboundLocalError\<close>, the next feed unprocessed. When it follows a feed titled
  \<open>Show\<close>, its episode is downloaded into the directory of \<open>Show\<close>.
\<close>

theorem missing_title_not_skipped:
  "main \<lparr>feedparser_parse = (\<lambda>u. Some \<lparr>feed = Map.empty, entries = Some []\<rparr>),
         requests_get = (\<lambda>u. Inl (OtherError ''offline'')),
         opml_parse = (\<lambda>p. Inr [[\<lparr>xmlUrl = ''bad''\<rparr>, \<lparr>xmlUrl = ''next''\<rparr>]])\<rparr>
        \<lparr>directory = [''P''], warnings = False, import_file = Some [''subs.opml'']\<rparr>
        \<lparr>fs = [([''P''], Dir)], console = [], done_event = False\<rparr>
   = (Raised UnboundLocalError,
      \<lparr>fs = [([''P''], Dir)], console = [FeedKeyError ''bad''], done_event = False\<rparr>)
   \<and> main \<lparr>feedparser_parse =
           (\<lambda>u. if u = ''good'' then Some \<lparr>feed = [''title'' \<mapsto> ''Show''], entries = Some []\<rparr>
                else Some \<lparr>feed = Map.empty,
                           entries = Some [\<lparr>title = Some ''Ep 1'',
                                       links = Some [[''type'' \<mapsto> ''audio/mpeg'',
                                                 ''href'' \<mapsto> ''u1'']]\<rparr>]\<rparr>),
         requests_get = (\<lambda>u. Inr \<lparr>headers = [''Content-Length'' \<mapsto> ''1''], content = [7]\<rparr>),
         opml_parse = (\<lambda>p. Inr [[\<lparr>xmlUrl = ''good''\<rparr>, \<lparr>xmlUrl = ''bad''\<rparr>]])\<rparr>
        \<lparr>directory = [''P''], warnings = False, import_file = Some [''subs.opml'']\<rparr>
        \<lparr>fs = [([''P''], Dir)], console = [], done_event = False\<rparr>
   = (Returned,
      \<lparr>fs = [([''P''], Dir), ([''P'', ''Show''], Dir), ([''P'', ''Show'', ''Ep 1.mp3''], File [7])],
       console = [FeedKeyError ''bad'', NewEpisode ''Ep 1.mp3''], done_event = False\<rparr>)"
  by (simp add: run_simps)

end
